theory Spec2Isabelle
  imports
    Complex_Main
    "HOL-Library.Char_ord"
    "HOL-Library.List_Lexorder"
    "HOL-Library.Option_ord"
begin

section \<open>The Express API of the B3 penny stock analyzer (server/index.ts)\<close>

text \<open>
  The server keeps one mutable variable (\<open>updateInProgress\<close>), reads two JSON snapshot
  files written by an external Python script, and starts that script on request or on a
  timer. The handlers are embedded as functions of what they read (the file, the request,
  the clock, the variable) to what they answer and how they leave the variable.

  Conventions of the embedding:
  \<^item> a JavaScript string is a \<open>string\<close>, compared as JavaScript compares strings (by code
    unit, a proper prefix first); the model covers ASCII text;
  \<^item> a JavaScript number read from JSON is a \<open>rat\<close>: the value of the double (JSON has no
    NaN; a literal beyond the double range is outside the model);
  \<^item> \<open>undefined\<close> and \<open>null\<close> in a field read with \<open>??\<close> are \<open>None\<close>;
  \<^item> a thrown exception is \<open>Inl e\<close>, and \<open>try\<close>/\<open>catch\<close> is a case split on it;
  \<^item> console output is not part of the model.
\<close>

subsection \<open>Exceptions, files, responses\<close>

datatype error = TypeError | SyntaxError

text \<open>
  What \<open>existsSync\<close> and \<open>JSON.parse(readFileSync(f, 'utf-8'))\<close> make of a path:
  nothing there, content that makes the read or the parse throw, or a parsed document.
\<close>

datatype 'd snapshot_file = Missing | Corrupt | Parsed 'd

definition existsSync :: "'d snapshot_file \<Rightarrow> bool" where
  "existsSync f = (f \<noteq> Missing)"

definition parse_file :: "'d snapshot_file \<Rightarrow> error + 'd" where
  "parse_file f = (case f of Parsed d \<Rightarrow> Inr d | _ \<Rightarrow> Inl SyntaxError)"

record 'b response =
  status :: nat
  body :: 'b

text \<open>\<open>res.json(b)\<close> answers 200; \<open>res.status(n).json(b)\<close> answers \<open>n\<close>.\<close>

definition json :: "'b \<Rightarrow> 'b response" where
  "json b = \<lparr>status = 200, body = b\<rparr>"

definition status_json :: "nat \<Rightarrow> 'b \<Rightarrow> 'b response" where
  "status_json n b = \<lparr>status = n, body = b\<rparr>"

subsection \<open>Strings\<close>

definition toUpperCase_char :: "char \<Rightarrow> char" where
  "toUpperCase_char c =
     (let n = (of_char c :: nat) in if 97 \<le> n \<and> n \<le> 122 then char_of (n - 32) else c)"

definition toUpperCase :: "string \<Rightarrow> string" where
  "toUpperCase s = map toUpperCase_char s"

text \<open>
  \<open>s.trim()\<close> removes white space and line terminators at both ends; among the ASCII
  characters these are tab, line feed, vertical tab, form feed, carriage return and space.
\<close>

definition is_space :: "char \<Rightarrow> bool" where
  "is_space c = (let n = (of_char c :: nat) in (9 \<le> n \<and> n \<le> 13) \<or> n = 32)"

definition trim :: "string \<Rightarrow> string" where
  "trim s = rev (dropWhile is_space (rev (dropWhile is_space s)))"

text \<open>The double quote, as a string.\<close>

definition quote :: string where
  "quote = [CHR 0x22]"

subsection \<open>The derivatives snapshot (data/cotahist.json)\<close>

text \<open>
  One element of \<open>opcoes\<close> as the handler reads it: four fields, each possibly missing or
  null. \<open>ticker_objeto\<close>, \<open>tipo\<close> and \<open>vencimento\<close> are strings and \<open>strike\<close> is a number, as
  the collection script writes them; an element with a field of another JSON type is
  outside the model. The other fields of an element are passed through untouched.
\<close>

record opcao =
  ticker_objeto :: "string option"
  tipo :: "string option"
  vencimento :: "string option"
  strike :: "rat option"

text \<open>
  An element of the array is \<open>null\<close> (reading a property of it throws) or a value with
  properties; a number, boolean, string or array in that place reads as an element with
  all four fields missing.
\<close>

datatype entry = Null_entry | Obj_entry opcao

text \<open>
  The value of \<open>cotahist.opcoes\<close>: missing or null, an array, or anything else.
\<close>

datatype opcoes = Nullish | Array "entry list" | Not_array

text \<open>
  The parsed document: \<open>null\<close>, or a value whose property \<open>opcoes\<close> can be read (a
  document that is a number, boolean, string or array reads as \<open>Doc Nullish\<close>).
\<close>

datatype cotahist = Doc_null | Doc opcoes

text \<open>Line 120, \<open>cotahist.opcoes ?? []\<close>: reading a property of \<open>null\<close> throws.\<close>

definition allOpts :: "cotahist \<Rightarrow> error + opcoes" where
  "allOpts d =
     (case d of
        Doc_null \<Rightarrow> Inl TypeError
      | Doc Nullish \<Rightarrow> Inr (Array [])
      | Doc v \<Rightarrow> Inr v)"

text \<open>
  The filter callback of lines 124-127:
  \<open>String(o.ticker_objeto ?? '').toUpperCase() === ticker && o.vencimento >= today\<close>.
  \<open>today\<close> is the first ten characters of \<open>toISOString()\<close>, never a numeral, so a
  missing or null \<open>vencimento\<close> is compared with NaN and fails the test.
\<close>

definition matches :: "string \<Rightarrow> string \<Rightarrow> opcao \<Rightarrow> bool" where
  "matches ticker today opt =
     (let obj = toUpperCase (case ticker_objeto opt of None \<Rightarrow> [] | Some s \<Rightarrow> s)
      in obj = ticker \<and> (case vencimento opt of None \<Rightarrow> False | Some v \<Rightarrow> today \<le> v))"

text \<open>
  \<open>es.filter(callback)\<close> on an array: the callback throws at a \<open>null\<close> element, and
  the exception leaves the filter.
\<close>

fun filter_entries :: "string \<Rightarrow> string \<Rightarrow> entry list \<Rightarrow> error + opcao list" where
  "filter_entries ticker today [] = Inr []"
| "filter_entries ticker today (Null_entry # es) = Inl TypeError"
| "filter_entries ticker today (Obj_entry opt # es) =
     (case filter_entries ticker today es of
        Inl e \<Rightarrow> Inl e
      | Inr os \<Rightarrow> Inr (if matches ticker today opt then opt # os else os))"

text \<open>
  Line 124, \<open>allOpts.filter(...)\<close>: a value that is not an array has no function
  \<open>filter\<close>, and the call throws.
\<close>

definition matched :: "string \<Rightarrow> string \<Rightarrow> opcoes \<Rightarrow> error + opcao list" where
  "matched ticker today v =
     (case v of Array es \<Rightarrow> filter_entries ticker today es | _ \<Rightarrow> Inl TypeError)"

text \<open>\<open>[...new Set(xs)]\<close>: the elements in order of first occurrence.\<close>

definition new_Set :: "'a list \<Rightarrow> 'a list" where
  "new_Set xs = fold (\<lambda>x s. if x \<in> set s then s else s @ [x]) xs []"

text \<open>
  \<open>Array.prototype.sort()\<close> with no comparator, on strings and \<open>undefined\<close>: the strings
  ascending, then every \<open>undefined\<close>.
\<close>

definition sort_default :: "string option list \<Rightarrow> string option list" where
  "sort_default xs = map Some (sort (List.map_filter id xs)) @ filter (\<lambda>x. x = None) xs"

text \<open>\<open>xs[0]\<close>, \<open>undefined\<close> on the empty array.\<close>

definition first :: "'a option list \<Rightarrow> 'a option" where
  "first xs = (case xs of [] \<Rightarrow> None | x # _ \<Rightarrow> x)"

text \<open>One round of the loop of lines 131-137: what it pushes for \<open>tipo\<close>.\<close>

definition nearest :: "string \<Rightarrow> opcao list \<Rightarrow> opcao list" where
  "nearest t ms =
     (let tipoOpts = filter (\<lambda>opt. tipo opt = Some t) ms
      in if length tipoOpts = 0 then []
         else let vencimentos = sort_default (new_Set (map vencimento tipoOpts));
                  proximo = first vencimentos
              in filter (\<lambda>opt. vencimento opt = proximo) tipoOpts)"

text \<open>The comparator key of line 140, \<open>a.strike ?? 0\<close>.\<close>

definition strike_or_0 :: "opcao \<Rightarrow> rat" where
  "strike_or_0 opt = (case strike opt of None \<Rightarrow> 0 | Some k \<Rightarrow> k)"

text \<open>
  Lines 119-140, the body of the \<open>try\<close>. \<open>Array.prototype.sort\<close> with the comparator
  \<open>(a.strike ?? 0) - (b.strike ?? 0)\<close> is a stable sort on that key.
\<close>

definition resolve :: "cotahist snapshot_file \<Rightarrow> string \<Rightarrow> string \<Rightarrow> error + opcao list" where
  "resolve file ticker today =
     (case parse_file file of
        Inl e \<Rightarrow> Inl e
      | Inr cotahist \<Rightarrow>
          (case allOpts cotahist of
             Inl e \<Rightarrow> Inl e
           | Inr opts \<Rightarrow>
               (case matched ticker today opts of
                  Inl e \<Rightarrow> Inl e
                | Inr ms \<Rightarrow>
                    Inr (sort_key strike_or_0 (nearest ''CALL'' ms @ nearest ''PUT'' ms)))))"

text \<open>
  The handler of \<open>GET /api/options/:ticker\<close> (lines 109-146), given the file, the
  route parameter and the date \<open>new Date().toISOString().slice(0, 10)\<close>. \<open>prefix\<close> is
  computed and never read.
\<close>

definition get_options :: "cotahist snapshot_file \<Rightarrow> string \<Rightarrow> string \<Rightarrow> opcao list response" where
  "get_options file req_ticker today =
     (let ticker = toUpperCase req_ticker;
          prefix = take 4 ticker
      in if \<not> existsSync file then json []
         else (case resolve file ticker today of
                 Inr result \<Rightarrow> json result
               | Inl e \<Rightarrow> json []))"

subsection \<open>JSON values (public/stocks.json, the request body)\<close>

datatype primitive = Undefined | Null | Bool bool | Number rat | Str string

text \<open>An object is the list of its own properties, each key once.\<close>

datatype js_value = Prim primitive | Arr "js_value list" | Obj "(string \<times> js_value) list"

text \<open>\<open>!v\<close> is false exactly on a truthy \<open>v\<close>.\<close>

definition truthy_prim :: "primitive \<Rightarrow> bool" where
  "truthy_prim p =
     (case p of
        Undefined \<Rightarrow> False
      | Null \<Rightarrow> False
      | Bool b \<Rightarrow> b
      | Number n \<Rightarrow> n \<noteq> 0
      | Str s \<Rightarrow> s \<noteq> [])"

definition truthy :: "js_value \<Rightarrow> bool" where
  "truthy v = (case v of Prim p \<Rightarrow> truthy_prim p | _ \<Rightarrow> True)"

text \<open>
  \<open>v.k\<close> for a key \<open>k\<close> that no prototype defines (every key read here is one): it
  throws on \<open>null\<close> and \<open>undefined\<close>, and is \<open>undefined\<close> where \<open>v\<close> has no own property
  \<open>k\<close>.
\<close>

definition get_prop :: "js_value \<Rightarrow> string \<Rightarrow> error + js_value" where
  "get_prop v k =
     (case v of
        Prim Undefined \<Rightarrow> Inl TypeError
      | Prim Null \<Rightarrow> Inl TypeError
      | Obj kvs \<Rightarrow> Inr (case map_of kvs k of None \<Rightarrow> Prim Undefined | Some x \<Rightarrow> x)
      | _ \<Rightarrow> Inr (Prim Undefined))"

text \<open>\<open>a ?? b\<close>.\<close>

definition coalesce :: "js_value \<Rightarrow> js_value \<Rightarrow> js_value" where
  "coalesce a b = (if a = Prim Undefined \<or> a = Prim Null then b else a)"

text \<open>Sequencing of two steps of which the first may throw.\<close>

definition and_then :: "error + 'a \<Rightarrow> ('a \<Rightarrow> error + 'b) \<Rightarrow> error + 'b" where
  "and_then r f = (case r of Inl e \<Rightarrow> Inl e | Inr x \<Rightarrow> f x)"

subsection \<open>The state of the server\<close>

text \<open>
  The two callers of \<open>runUpdateScript\<close>, each with its own callback.
\<close>

datatype trigger = Manual | Scheduled

text \<open>
  A running child process: the command line given to \<open>exec\<close>, the \<open>timeout\<close> option of
  \<open>exec\<close> in milliseconds, and whose callback waits for it.
\<close>

record child =
  command :: string
  timeout :: nat
  callback :: trigger

text \<open>
  The state: the variable \<open>updateInProgress\<close> (line 58) and the child processes that
  \<open>exec\<close> started and that have not called back yet, oldest first.
\<close>

record service =
  updateInProgress :: bool
  children :: "child list"

definition initial :: service where
  "initial = \<lparr>updateInProgress = False, children = []\<rparr>"

subsection \<open>The equity snapshot and its readers\<close>

text \<open>\<open>readStocks\<close> (lines 49-56).\<close>

definition readStocks :: "js_value snapshot_file \<Rightarrow> error + js_value" where
  "readStocks file =
     (if \<not> existsSync file then Inr (Prim Null)
      else (case parse_file file of
              Inr d \<Rightarrow> Inr d
            | Inl e \<Rightarrow> Inr (Prim Null)))"

text \<open>
  \<open>GET /api/stocks\<close> (lines 76-85): the body is the snapshot, or the object
  \<open>{error: ...}\<close> with status 404.
\<close>

datatype stocks_body = Stocks_error | Stocks js_value

definition get_stocks :: "js_value snapshot_file \<Rightarrow> error + stocks_body response" where
  "get_stocks file =
     and_then (readStocks file) (\<lambda>data.
       if \<not> truthy data then Inr (status_json 404 Stocks_error)
       else Inr (json (Stocks data)))"

text \<open>\<open>GET /api/status\<close> (lines 90-104).\<close>

definition get_status :: "js_value snapshot_file \<Rightarrow> service \<Rightarrow> error + js_value response" where
  "get_status file s =
     and_then (readStocks file) (\<lambda>data.
       if \<not> truthy data
       then Inr (json (Obj [(''disponivel'', Prim (Bool False)),
                            (''updateInProgress'', Prim (Bool (updateInProgress s)))]))
       else
         and_then (get_prop data ''atualizadoEm'') (\<lambda>atualizadoEm.
         and_then (get_prop data ''dataReferencia'') (\<lambda>dataReferencia.
         and_then (get_prop data ''fonte'') (\<lambda>fonte.
         and_then (get_prop data ''totalAcoes'') (\<lambda>totalAcoes.
           Inr (json (Obj [(''disponivel'', Prim (Bool True)),
                           (''atualizadoEm'', coalesce atualizadoEm (Prim Null)),
                           (''dataReferencia'', coalesce dataReferencia (Prim Null)),
                           (''fonte'', coalesce fonte (Prim Null)),
                           (''totalAcoes'', coalesce totalAcoes (Prim (Number 0))),
                           (''updateInProgress'', Prim (Bool (updateInProgress s)))])))))))"

subsection \<open>The update service\<close>

text \<open>
  What the server takes from where it runs: \<open>scriptPath\<close>, the value of
  \<open>path.join(ROOT_DIR, 'scripts', 'update_stocks.py')\<close>, and how the language prints a
  number (\<open>Number::toString\<close>).
\<close>

record runtime =
  scriptPath :: string
  Number_toString :: "rat \<Rightarrow> string"

text \<open>\<open>xs.join(' ')\<close>.\<close>

fun join :: "string list \<Rightarrow> string" where
  "join [] = []"
| "join [x] = x"
| "join (x # y # ys) = x @ '' '' @ join (y # ys)"

text \<open>
  \<open>runUpdateScript(extraArgs, callback)\<close> (lines 60-71): \<open>exec\<close> is given the command
  line \<open>`python "${scriptPath}" ${args}`.trim()\<close> and a timeout of ten minutes, starts
  the child and returns at once; the callback runs when the child ends. What the shell
  makes of the command line is not part of the model.
\<close>

definition runUpdateScript :: "runtime \<Rightarrow> string list \<Rightarrow> trigger \<Rightarrow> service \<Rightarrow> service" where
  "runUpdateScript rt extraArgs cb s =
     (let args = join extraArgs
      in s\<lparr>children := children s @
            [\<lparr>command = trim (''python '' @ quote @ scriptPath rt @ quote @ '' '' @ args),
              timeout = 10 * 60 * 1000,
              callback = cb\<rparr>]\<rparr>)"

text \<open>The conversion of a primitive to a string.\<close>

definition ToString :: "(rat \<Rightarrow> string) \<Rightarrow> primitive \<Rightarrow> string" where
  "ToString num p =
     (case p of
        Undefined \<Rightarrow> ''undefined''
      | Null \<Rightarrow> ''null''
      | Bool b \<Rightarrow> (if b then ''true'' else ''false'')
      | Number n \<Rightarrow> num n
      | Str s \<Rightarrow> s)"

text \<open>
  \<open>Array.prototype.join\<close> with the separator \<open>,\<close> over the converted elements; an
  element whose conversion throws makes the join throw.
\<close>

fun join_comma :: "(error + string) list \<Rightarrow> error + string" where
  "join_comma [] = Inr []"
| "join_comma [r] = r"
| "join_comma (r # r' # rs) =
     (case r of
        Inl e \<Rightarrow> Inl e
      | Inr x \<Rightarrow> (case join_comma (r' # rs) of Inl e \<Rightarrow> Inl e | Inr y \<Rightarrow> Inr (x @ '','' @ y)))"

text \<open>
  \<open>String(v)\<close> on a value read from JSON.
  \<^item> An array converts by \<open>Array.prototype.toString\<close>, which joins its elements with
    commas, \<open>null\<close> and \<open>undefined\<close> as the empty string and every other element converted
    in turn.
  \<^item> An object converts by the first of its \<open>toString\<close> and \<open>valueOf\<close> that is a function
    and returns a primitive. A property read from JSON is never a function, so an object
    with an own property \<open>toString\<close> hides \<open>Object.prototype.toString\<close>, is left with a
    \<open>valueOf\<close> that is no function or returns the object itself, and the conversion throws
    a TypeError. Any other object converts to \<open>[object Object]\<close>.
\<close>

fun String :: "(rat \<Rightarrow> string) \<Rightarrow> js_value \<Rightarrow> error + string" where
  "String num (Prim p) = Inr (ToString num p)"
| "String num (Arr xs) =
     join_comma (map (\<lambda>x. if x = Prim Undefined \<or> x = Prim Null then Inr [] else String num x) xs)"
| "String num (Obj kvs) =
     (if map_of kvs ''toString'' \<noteq> None then Inl TypeError else Inr ''[object Object]'')"

text \<open>\<open>v?.k\<close>: \<open>undefined\<close> where \<open>v\<close> is \<open>null\<close> or \<open>undefined\<close>.\<close>

definition optional_prop :: "js_value \<Rightarrow> string \<Rightarrow> error + js_value" where
  "optional_prop v k = (if v = Prim Undefined \<or> v = Prim Null then Inr (Prim Undefined) else get_prop v k)"

text \<open>
  Line 157, \<open>req.body?.maxPreco ? String(req.body.maxPreco) : '10.0'\<close>, for the request
  body \<open>req_body\<close> that \<open>express.json()\<close> parsed (\<open>undefined\<close> or \<open>{}\<close> when the request
  has none).
\<close>

definition read_maxPreco :: "runtime \<Rightarrow> js_value \<Rightarrow> error + string" where
  "read_maxPreco rt req_body =
     and_then (optional_prop req_body ''maxPreco'') (\<lambda>v.
       if truthy v
       then and_then (get_prop req_body ''maxPreco'') (String (Number_toString rt))
       else Inr ''10.0'')"

text \<open>
  The body of the answers of \<open>POST /api/update\<close>: the object \<open>{error: ...}\<close>, or
  \<open>{success: true, mensagem: ...}\<close>.
\<close>

datatype update_body = Update_error | Update_success

text \<open>
  \<open>POST /api/update\<close> (lines 151-170). Nothing in the handler catches an exception: one
  thrown at line 157 leaves the handler before the variable is set and before any answer
  is written (\<open>Inl\<close>; Express then answers 500).
\<close>

definition post_update ::
    "runtime \<Rightarrow> js_value \<Rightarrow> service \<Rightarrow> (error + update_body response) \<times> service" where
  "post_update rt req_body s =
     (if updateInProgress s then (Inr (status_json 409 Update_error), s)
      else
        (case read_maxPreco rt req_body of
           Inl e \<Rightarrow> (Inl e, s)
         | Inr maxPreco \<Rightarrow>
             let s1 = s\<lparr>updateInProgress := True\<rparr>;
                 res = json Update_success
             in (Inr res, runUpdateScript rt [''--max-preco '' @ maxPreco] Manual s1)))"

text \<open>How a child ended: it exited with a code, or \<open>exec\<close> killed it at the timeout.\<close>

datatype ending = Exited nat | Timed_out

text \<open>
  The callbacks of lines 161-169 and 200-204, called when child number \<open>i\<close> ends: both
  clear the variable first, whatever \<open>err\<close> is, and then only write to the console.
  \<open>exec\<close> calls the callback of a child it started, once; an ending of a child that is
  not running does not happen, and leaves the state as it is.
\<close>

definition exec_callback :: "nat \<Rightarrow> ending \<Rightarrow> service \<Rightarrow> service" where
  "exec_callback i err s =
     (if i < length (children s)
      then s\<lparr>updateInProgress := False,
              children := take i (children s) @ drop (Suc i) (children s)\<rparr>
      else s)"

text \<open>The timer (lines 185-205), reading the clock as \<open>getUTCHours\<close> and \<open>getUTCMinutes\<close>.\<close>

definition UPDATE_INTERVAL_MS :: nat where
  "UPDATE_INTERVAL_MS = 30 * 60 * 1000"

definition isTradinghours :: "nat \<Rightarrow> nat \<Rightarrow> bool" where
  "isTradinghours utcH utcM =
     (let total = utcH * 60 + utcM in total \<ge> 13 * 60 \<and> total \<le> 21 * 60 + 20)"

definition timer_tick :: "runtime \<Rightarrow> nat \<Rightarrow> nat \<Rightarrow> service \<Rightarrow> service" where
  "timer_tick rt utcH utcM s =
     (if updateInProgress s \<or> \<not> isTradinghours utcH utcM then s
      else runUpdateScript rt [] Scheduled (s\<lparr>updateInProgress := True\<rparr>))"

text \<open>What can happen to the running service, and a run from the start.\<close>

datatype event = Post_update js_value | Timer_tick nat nat | Child_ended nat ending

fun step :: "runtime \<Rightarrow> service \<Rightarrow> event \<Rightarrow> service" where
  "step rt s (Post_update req_body) = snd (post_update rt req_body s)"
| "step rt s (Timer_tick h m) = timer_tick rt h m s"
| "step rt s (Child_ended i e) = exec_callback i e s"

definition run :: "runtime \<Rightarrow> event list \<Rightarrow> service" where
  "run rt es = foldl (step rt) initial es"

section \<open>Properties\<close>

subsection \<open>The options resolver: auxiliary facts\<close>

lemma filter_entries_set:
  "filter_entries ticker today es = Inr ms \<Longrightarrow>
     set ms = {opt. Obj_entry opt \<in> set es \<and> matches ticker today opt}"
proof (induction es arbitrary: ms)
  case Nil
  then show ?case by simp
next
  case (Cons e es)
  show ?case
  proof (cases e)
    case Null_entry
    with Cons.prems show ?thesis by simp
  next
    case (Obj_entry opt)
    with Cons.prems obtain os where os: "filter_entries ticker today es = Inr os"
      and ms: "ms = (if matches ticker today opt then opt # os else os)"
      by (auto split: sum.splits)
    from Cons.IH [OF os] ms Obj_entry show ?thesis by auto
  qed
qed

lemma set_new_Set_aux:
  "set (fold (\<lambda>x s. if x \<in> set s then s else s @ [x]) xs acc) = set acc \<union> set xs"
  by (induction xs arbitrary: acc) auto

lemma set_new_Set: "set (new_Set xs) = set xs"
  by (simp add: new_Set_def set_new_Set_aux)

lemma set_map_filter_id: "set (List.map_filter id xs) = {v. Some v \<in> set xs}"
  by (force simp: List.map_filter_def image_iff)

lemma first_sort_default:
  assumes "Some v \<in> set xs"
  shows "\<exists>m. first (sort_default xs) = Some m \<and> Some m \<in> set xs \<and> (\<forall>w. Some w \<in> set xs \<longrightarrow> m \<le> w)"
proof -
  let ?ys = "sort (List.map_filter id xs)"
  from assms have ne: "?ys \<noteq> []"
    by (metis empty_iff mem_Collect_eq set_empty set_map_filter_id set_sort)
  then obtain m zs where ys: "?ys = m # zs" by (cases ?ys) auto
  have "sorted ?ys" by simp
  with ys have "\<forall>w \<in> set ?ys. m \<le> w" by auto
  then have least: "\<forall>w. Some w \<in> set xs \<longrightarrow> m \<le> w"
    by (simp add: set_map_filter_id)
  have "m \<in> set ?ys" using ys by simp
  then have mem: "Some m \<in> set xs"
    by (simp add: set_map_filter_id)
  have "first (sort_default xs) = Some m"
    using ys by (simp add: sort_default_def first_def)
  with least mem show ?thesis by blast
qed

lemma nearest_set:
  assumes "opt \<in> set (nearest t ms)"
  shows "opt \<in> set ms \<and> tipo opt = Some t"
  using assms by (auto simp: nearest_def Let_def split: if_splits)

lemma nearest_least:
  assumes "opt \<in> set (nearest t ms)" and "\<forall>c \<in> set ms. vencimento c \<noteq> None"
  shows "\<exists>m. vencimento opt = Some m \<and>
           (\<forall>c \<in> set ms. tipo c = Some t \<longrightarrow> (\<forall>w. vencimento c = Some w \<longrightarrow> m \<le> w))"
proof -
  let ?tipoOpts = "filter (\<lambda>opt. tipo opt = Some t) ms"
  let ?vs = "new_Set (map vencimento ?tipoOpts)"
  from assms(1) have mem: "opt \<in> set ?tipoOpts" and eq: "vencimento opt = first (sort_default ?vs)"
    by (auto simp: nearest_def Let_def split: if_splits)
  from mem assms(2) obtain v where v: "vencimento opt = Some v" by auto
  with mem have "Some v \<in> set ?vs" by (force simp: set_new_Set)
  from first_sort_default [OF this] obtain m where
    m: "first (sort_default ?vs) = Some m" and least: "\<forall>w. Some w \<in> set ?vs \<longrightarrow> m \<le> w"
    by blast
  have "\<forall>c \<in> set ms. tipo c = Some t \<longrightarrow> (\<forall>w. vencimento c = Some w \<longrightarrow> m \<le> w)"
  proof (intro ballI impI allI)
    fix c w assume "c \<in> set ms" "tipo c = Some t" "vencimento c = Some w"
    then have "Some w \<in> set ?vs" by (force simp: set_new_Set)
    with least show "m \<le> w" by blast
  qed
  with eq m show ?thesis by simp
qed

lemma resolve_Inr:
  assumes "resolve file ticker today = Inr result"
  shows "\<exists>es ms. file = Parsed (Doc (Array es)) \<and> filter_entries ticker today es = Inr ms \<and>
            result = sort_key strike_or_0 (nearest ''CALL'' ms @ nearest ''PUT'' ms)
         \<or> (\<exists>d. file = Parsed d \<and> result = [])"
  using assms
  by (auto simp: resolve_def parse_file_def allOpts_def matched_def nearest_def
      split: sum.splits snapshot_file.splits cotahist.splits opcoes.splits)

lemma get_options_body:
  "body (get_options file req today) =
     (case resolve file (toUpperCase req) today of Inr r \<Rightarrow> r | Inl e \<Rightarrow> [])"
  by (auto simp: get_options_def Let_def json_def existsSync_def resolve_def parse_file_def
      split: sum.splits)

lemma get_options_cases:
  "body (get_options file req today) = [] \<or>
   (\<exists>es ms. file = Parsed (Doc (Array es)) \<and>
      filter_entries (toUpperCase req) today es = Inr ms \<and>
      body (get_options file req today) =
        sort_key strike_or_0 (nearest ''CALL'' ms @ nearest ''PUT'' ms))"
proof (cases "resolve file (toUpperCase req) today")
  case (Inl e)
  then show ?thesis by (simp add: get_options_body)
next
  case (Inr r)
  from resolve_Inr [OF Inr] show ?thesis
    using Inr by (auto simp: get_options_body)
qed

lemma returned_is_matched:
  assumes "opt \<in> set (body (get_options file req today))"
  obtains es ms t where "file = Parsed (Doc (Array es))"
    and "filter_entries (toUpperCase req) today es = Inr ms"
    and "t = ''CALL'' \<or> t = ''PUT''"
    and "opt \<in> set (nearest t ms)"
proof -
  from assms get_options_cases [of "file" req today]
  obtain es ms where f: "file = Parsed (Doc (Array es))"
    and ms: "filter_entries (toUpperCase req) today es = Inr ms"
    and b: "body (get_options file req today) =
              sort_key strike_or_0 (nearest ''CALL'' ms @ nearest ''PUT'' ms)"
    by fastforce
  from assms b have "opt \<in> set (nearest ''CALL'' ms) \<or> opt \<in> set (nearest ''PUT'' ms)"
    by simp
  with f ms that show thesis by blast
qed

subsection \<open>The options resolver: what is returned\<close>

text \<open>
  C4. Every record in the answer of \<open>GET /api/options/:ticker\<close> is an element of the
  snapshot's \<open>opcoes\<close> whose \<open>ticker_objeto\<close>, uppercased, is the whole uppercased request
  ticker, and whose \<open>vencimento\<close> is not before \<open>today\<close> (in the order of strings, which
  is the order of the calendar for dates written \<open>YYYY-MM-DD\<close>). Nothing restricts the
  length of the ticker: the comparison is on the full string for a ticker of any length,
  and the four-character \<open>prefix\<close> is not consulted.
\<close>

theorem options_match_ticker_and_date:
  assumes "opt \<in> set (body (get_options file req_ticker today))"
  shows "toUpperCase (case ticker_objeto opt of None \<Rightarrow> [] | Some s \<Rightarrow> s) = toUpperCase req_ticker
         \<and> (\<exists>v. vencimento opt = Some v \<and> today \<le> v)
         \<and> (\<exists>es. file = Parsed (Doc (Array es)) \<and> Obj_entry opt \<in> set es)"
proof -
  from assms obtain es ms t where f: "file = Parsed (Doc (Array es))"
    and ms: "filter_entries (toUpperCase req_ticker) today es = Inr ms"
    and n: "opt \<in> set (nearest t ms)"
    by (rule returned_is_matched)
  from n have "opt \<in> set ms" by (simp add: nearest_set)
  with filter_entries_set [OF ms]
  have e: "Obj_entry opt \<in> set es" and m: "matches (toUpperCase req_ticker) today opt"
    by auto
  from m have "toUpperCase (case ticker_objeto opt of None \<Rightarrow> [] | Some s \<Rightarrow> s) = toUpperCase req_ticker"
    and "\<exists>v. vencimento opt = Some v \<and> today \<le> v"
    by (auto simp: matches_def Let_def split: option.splits)
  with f e show ?thesis by blast
qed

theorem options_match_ticker_and_date_witness:
  "\<lparr>ticker_objeto = Some ''abc'', tipo = Some ''CALL'', vencimento = Some ''2026-01-16'',
      strike = Some 5\<rparr>
     \<in> set (body (get_options
         (Parsed (Doc (Array [
            Obj_entry \<lparr>ticker_objeto = Some ''abc'', tipo = Some ''CALL'',
              vencimento = Some ''2026-01-16'', strike = Some 5\<rparr>,
            Obj_entry \<lparr>ticker_objeto = Some ''abcd'', tipo = Some ''CALL'',
              vencimento = Some ''2026-01-16'', strike = Some 6\<rparr>,
            Obj_entry \<lparr>ticker_objeto = Some ''ABC'', tipo = Some ''PUT'',
              vencimento = Some ''2025-12-19'', strike = Some 4\<rparr>])))
         ''Abc'' ''2026-01-01''))
   \<and> toUpperCase ''abc'' = toUpperCase ''Abc''
   \<and> ''2026-01-01'' \<le> ''2026-01-16''"
proof -
  let ?opt = "\<lparr>ticker_objeto = Some ''abc'', tipo = Some ''CALL'',
                 vencimento = Some ''2026-01-16'', strike = Some (5::rat)\<rparr>"
  let ?file = "Parsed (Doc (Array [
            Obj_entry ?opt,
            Obj_entry \<lparr>ticker_objeto = Some ''abcd'', tipo = Some ''CALL'',
              vencimento = Some ''2026-01-16'', strike = Some 6\<rparr>,
            Obj_entry \<lparr>ticker_objeto = Some ''ABC'', tipo = Some ''PUT'',
              vencimento = Some ''2025-12-19'', strike = Some 4\<rparr>]))"
  have b: "body (get_options ?file ''Abc'' ''2026-01-01'') = [?opt]"
    by code_simp
  then have h: "?opt \<in> set (body (get_options ?file ''Abc'' ''2026-01-01''))"
    by simp
  from options_match_ticker_and_date [OF h] h show ?thesis
    by simp
qed

lemma filter_entries_vencimento:
  assumes "filter_entries ticker today es = Inr ms" and "c \<in> set ms"
  shows "vencimento c \<noteq> None"
  using filter_entries_set [OF assms(1)] assms(2)
  by (auto simp: matches_def Let_def split: option.splits)

lemma returned_from_snapshot:
  assumes "opt \<in> set (body (get_options (Parsed (Doc (Array es))) req today))"
  shows "Obj_entry opt \<in> set es \<and> matches (toUpperCase req) today opt"
proof -
  from assms obtain es' ms t where f: "Parsed (Doc (Array es)) = Parsed (Doc (Array es'))"
    and ms: "filter_entries (toUpperCase req) today es' = Inr ms"
    and n: "opt \<in> set (nearest t ms)"
    by (rule returned_is_matched)
  from n have "opt \<in> set ms" by (simp add: nearest_set)
  with filter_entries_set [OF ms] f show ?thesis by auto
qed

lemma sorted_map_transfer:
  assumes "sorted (map f xs)"
    and "\<And>a b. a \<in> set xs \<Longrightarrow> b \<in> set xs \<Longrightarrow> f a \<le> f b \<Longrightarrow> g a \<le> g b"
  shows "sorted (map g xs)"
  using assms by (induction xs) auto

text \<open>
  C3. In the answer for a snapshot whose \<open>opcoes\<close> is the array \<open>es\<close>, every record is a
  CALL or a PUT of the snapshot that passed the filter, and its \<open>vencimento\<close> is the least
  \<open>vencimento\<close> among the elements of \<open>es\<close> of its own \<open>tipo\<close> that passed the filter: all
  CALLs of the answer carry the nearest CALL date, all PUTs the nearest PUT date. A \<open>tipo\<close>
  with no element passing the filter has no record in the answer. The two dates are found
  separately and can differ, as they do for one CALL at 2026-01-16 and one PUT at
  2026-02-20.
\<close>

theorem nearest_expiration_per_type:
  "(\<forall>opt \<in> set (body (get_options (Parsed (Doc (Array es))) req_ticker today)).
      (tipo opt = Some ''CALL'' \<or> tipo opt = Some ''PUT'') \<and>
      Obj_entry opt \<in> set es \<and> matches (toUpperCase req_ticker) today opt \<and>
      (\<exists>m. vencimento opt = Some m \<and>
         (\<forall>c w. Obj_entry c \<in> set es \<and> matches (toUpperCase req_ticker) today c \<and>
                 tipo c = tipo opt \<and> vencimento c = Some w \<longrightarrow> m \<le> w)))
   \<and> (\<forall>t. (\<forall>c. Obj_entry c \<in> set es \<and> matches (toUpperCase req_ticker) today c
                 \<longrightarrow> tipo c \<noteq> Some t)
          \<longrightarrow> (\<forall>opt \<in> set (body (get_options (Parsed (Doc (Array es))) req_ticker today)).
                 tipo opt \<noteq> Some t))
   \<and> (\<exists>es' req' today' a b.
         a \<in> set (body (get_options (Parsed (Doc (Array es'))) req' today')) \<and>
         b \<in> set (body (get_options (Parsed (Doc (Array es'))) req' today')) \<and>
         tipo a = Some ''CALL'' \<and> tipo b = Some ''PUT'' \<and> vencimento a \<noteq> vencimento b)"
proof (intro conjI)
  let ?B = "body (get_options (Parsed (Doc (Array es))) req_ticker today)"
  let ?T = "toUpperCase req_ticker"
  have each: "(tipo opt = Some ''CALL'' \<or> tipo opt = Some ''PUT'') \<and>
      Obj_entry opt \<in> set es \<and> matches ?T today opt \<and>
      (\<exists>m. vencimento opt = Some m \<and>
         (\<forall>c w. Obj_entry c \<in> set es \<and> matches ?T today c \<and>
                 tipo c = tipo opt \<and> vencimento c = Some w \<longrightarrow> m \<le> w))"
    if "opt \<in> set ?B" for opt
  proof -
    from that obtain es' ms t where f: "Parsed (Doc (Array es)) = Parsed (Doc (Array es'))"
      and ms: "filter_entries ?T today es' = Inr ms"
      and t: "t = ''CALL'' \<or> t = ''PUT''"
      and n: "opt \<in> set (nearest t ms)"
      by (rule returned_is_matched)
    from f have es: "es' = es" by simp
    note set_ms = filter_entries_set [OF ms [unfolded es]]
    from n have in_ms: "opt \<in> set ms" and tp: "tipo opt = Some t"
      by (simp_all add: nearest_set)
    have "\<forall>c \<in> set ms. vencimento c \<noteq> None"
      using filter_entries_vencimento [OF ms] by blast
    from nearest_least [OF n this] obtain m where m: "vencimento opt = Some m"
      and least: "\<forall>c \<in> set ms. tipo c = Some t \<longrightarrow> (\<forall>w. vencimento c = Some w \<longrightarrow> m \<le> w)"
      by blast
    have "\<forall>c w. Obj_entry c \<in> set es \<and> matches ?T today c \<and>
                 tipo c = tipo opt \<and> vencimento c = Some w \<longrightarrow> m \<le> w"
      using least set_ms tp by auto
    with m t tp in_ms set_ms show ?thesis by auto
  qed
  then show "\<forall>opt \<in> set ?B.
      (tipo opt = Some ''CALL'' \<or> tipo opt = Some ''PUT'') \<and>
      Obj_entry opt \<in> set es \<and> matches ?T today opt \<and>
      (\<exists>m. vencimento opt = Some m \<and>
         (\<forall>c w. Obj_entry c \<in> set es \<and> matches ?T today c \<and>
                 tipo c = tipo opt \<and> vencimento c = Some w \<longrightarrow> m \<le> w))"
    by blast
  show "\<forall>t. (\<forall>c. Obj_entry c \<in> set es \<and> matches ?T today c \<longrightarrow> tipo c \<noteq> Some t)
          \<longrightarrow> (\<forall>opt \<in> set ?B. tipo opt \<noteq> Some t)"
    using each by blast
  let ?call = "\<lparr>ticker_objeto = Some ''AAAA3'', tipo = Some ''CALL'',
                  vencimento = Some ''2026-01-16'', strike = Some (5::rat)\<rparr>"
  let ?put = "\<lparr>ticker_objeto = Some ''AAAA3'', tipo = Some ''PUT'',
                 vencimento = Some ''2026-02-20'', strike = Some (4::rat)\<rparr>"
  have "body (get_options (Parsed (Doc (Array [Obj_entry ?call, Obj_entry ?put])))
          ''AAAA3'' ''2026-01-01'') = [?put, ?call]"
    by code_simp
  then have "?call \<in> set (body (get_options (Parsed (Doc (Array [Obj_entry ?call, Obj_entry ?put])))
          ''AAAA3'' ''2026-01-01'')) \<and>
       ?put \<in> set (body (get_options (Parsed (Doc (Array [Obj_entry ?call, Obj_entry ?put])))
          ''AAAA3'' ''2026-01-01'')) \<and>
       tipo ?call = Some ''CALL'' \<and> tipo ?put = Some ''PUT'' \<and> vencimento ?call \<noteq> vencimento ?put"
    by simp
  then show "\<exists>es' req' today' a b.
         a \<in> set (body (get_options (Parsed (Doc (Array es'))) req' today')) \<and>
         b \<in> set (body (get_options (Parsed (Doc (Array es'))) req' today')) \<and>
         tipo a = Some ''CALL'' \<and> tipo b = Some ''PUT'' \<and> vencimento a \<noteq> vencimento b"
    by blast
qed

theorem nearest_expiration_per_type_witness:
  "\<lparr>ticker_objeto = Some ''AAAA3'', tipo = Some ''CALL'', vencimento = Some ''2026-01-16'',
      strike = Some 5\<rparr>
     \<in> set (body (get_options
         (Parsed (Doc (Array [
            Obj_entry \<lparr>ticker_objeto = Some ''AAAA3'', tipo = Some ''CALL'',
              vencimento = Some ''2026-02-20'', strike = Some 6\<rparr>,
            Obj_entry \<lparr>ticker_objeto = Some ''AAAA3'', tipo = Some ''CALL'',
              vencimento = Some ''2026-01-16'', strike = Some 5\<rparr>,
            Obj_entry \<lparr>ticker_objeto = Some ''AAAA3'', tipo = Some ''PUT'',
              vencimento = Some ''2026-02-20'', strike = Some 4\<rparr>])))
         ''AAAA3'' ''2026-01-01''))
   \<and> (\<exists>m. Some ''2026-01-16'' = Some m \<and> m \<le> ''2026-02-20'')
   \<and> filter (\<lambda>opt. tipo opt = Some ''PUT'')
        (body (get_options
           (Parsed (Doc (Array [
              Obj_entry \<lparr>ticker_objeto = Some ''AAAA3'', tipo = Some ''CALL'',
                vencimento = Some ''2026-02-20'', strike = Some 6\<rparr>,
              Obj_entry \<lparr>ticker_objeto = Some ''AAAA3'', tipo = Some ''CALL'',
                vencimento = Some ''2026-01-16'', strike = Some 5\<rparr>])))
           ''AAAA3'' ''2026-01-01'')) = []"
proof -
  let ?far = "\<lparr>ticker_objeto = Some ''AAAA3'', tipo = Some ''CALL'',
                 vencimento = Some ''2026-02-20'', strike = Some (6::rat)\<rparr>"
  let ?call = "\<lparr>ticker_objeto = Some ''AAAA3'', tipo = Some ''CALL'',
                  vencimento = Some ''2026-01-16'', strike = Some (5::rat)\<rparr>"
  let ?put = "\<lparr>ticker_objeto = Some ''AAAA3'', tipo = Some ''PUT'',
                 vencimento = Some ''2026-02-20'', strike = Some (4::rat)\<rparr>"
  let ?es = "[Obj_entry ?far, Obj_entry ?call, Obj_entry ?put]"
  let ?B = "body (get_options (Parsed (Doc (Array ?es))) ''AAAA3'' ''2026-01-01'')"
  have b: "?B = [?put, ?call]"
    by code_simp
  then have h: "?call \<in> set ?B"
    by simp
  have far: "Obj_entry ?far \<in> set ?es \<and> matches (toUpperCase ''AAAA3'') ''2026-01-01'' ?far"
    by code_simp
  from nearest_expiration_per_type [of ?es "''AAAA3''" "''2026-01-01''"] h
  obtain m where m: "vencimento ?call = Some m"
    and least: "\<forall>c w. Obj_entry c \<in> set ?es \<and> matches (toUpperCase ''AAAA3'') ''2026-01-01'' c \<and>
                 tipo c = tipo ?call \<and> vencimento c = Some w \<longrightarrow> m \<le> w"
    by blast
  from least far have "m \<le> ''2026-02-20''"
    by (metis opcao.select_convs(2) opcao.select_convs(3))
  with m h have first_part: "?call \<in> set ?B \<and> (\<exists>m. Some ''2026-01-16'' = Some m \<and> m \<le> ''2026-02-20'')"
    by simp
  let ?calls = "[Obj_entry ?far, Obj_entry ?call]"
  let ?C = "body (get_options (Parsed (Doc (Array ?calls))) ''AAAA3'' ''2026-01-01'')"
  have no_put: "\<forall>c. Obj_entry c \<in> set ?calls \<and> matches (toUpperCase ''AAAA3'') ''2026-01-01'' c
      \<longrightarrow> tipo c \<noteq> Some ''PUT''"
    by auto
  from nearest_expiration_per_type [of ?calls "''AAAA3''" "''2026-01-01''"] no_put
  have "\<forall>opt \<in> set ?C. tipo opt \<noteq> Some ''PUT''"
    by blast
  then have "filter (\<lambda>opt. tipo opt = Some ''PUT'') ?C = []"
    by (simp add: filter_empty_conv)
  with first_part show ?thesis by blast
qed

text \<open>
  C5, as the code has it. The answer is in non-decreasing order of \<open>strike\<close> where a
  missing strike counts as 0, the comparator's \<open>a.strike ?? 0\<close>: a record without strike
  stands after every record with a negative strike and before every record with a positive
  one. When every strike present in the answer is positive, the records without strike
  come first, and the answer is in order also with a missing strike taken as the lowest
  value (the order of \<open>rat option\<close>, \<open>None\<close> below every \<open>Some k\<close>).
\<close>

theorem absent_strike_counts_as_zero:
  "sorted (map strike_or_0 (body (get_options file req_ticker today)))
   \<and> ((\<forall>opt \<in> set (body (get_options file req_ticker today)).
          \<forall>k. strike opt = Some k \<longrightarrow> 0 < k)
        \<longrightarrow> sorted (map strike (body (get_options file req_ticker today))))"
proof (intro conjI impI)
  let ?B = "body (get_options file req_ticker today)"
  from get_options_cases [of "file" req_ticker today]
  show key: "sorted (map strike_or_0 ?B)"
    by (auto simp del: sort_key_simps)
  assume pos: "\<forall>opt \<in> set ?B. \<forall>k. strike opt = Some k \<longrightarrow> 0 < k"
  show "sorted (map strike ?B)"
  proof (rule sorted_map_transfer [OF key])
    fix a b assume a: "a \<in> set ?B" and b: "b \<in> set ?B" and le: "strike_or_0 a \<le> strike_or_0 b"
    show "strike a \<le> strike b"
    proof (cases "strike a")
      case None
      then show ?thesis by simp
    next
      case (Some x)
      with pos a have "0 < x" by blast
      with le Some pos b show ?thesis
        by (cases "strike b") (auto simp: strike_or_0_def)
    qed
  qed
qed

theorem absent_strike_counts_as_zero_witness:
  "map strike (body (get_options
      (Parsed (Doc (Array [
         Obj_entry \<lparr>ticker_objeto = Some ''AAAA3'', tipo = Some ''CALL'',
           vencimento = Some ''2026-01-16'', strike = Some 5\<rparr>,
         Obj_entry \<lparr>ticker_objeto = Some ''AAAA3'', tipo = Some ''CALL'',
           vencimento = Some ''2026-01-16'', strike = None\<rparr>,
         Obj_entry \<lparr>ticker_objeto = Some ''AAAA3'', tipo = Some ''PUT'',
           vencimento = Some ''2026-01-16'', strike = Some (9 / 2)\<rparr>])))
      ''AAAA3'' ''2026-01-01'')) = [None, Some (9 / 2), Some 5]
   \<and> sorted [None, Some (9 / 2), Some (5::rat)]
   \<and> sorted [0, 9 / 2, 5::rat]"
proof -
  let ?B = "body (get_options
      (Parsed (Doc (Array [
         Obj_entry \<lparr>ticker_objeto = Some ''AAAA3'', tipo = Some ''CALL'',
           vencimento = Some ''2026-01-16'', strike = Some 5\<rparr>,
         Obj_entry \<lparr>ticker_objeto = Some ''AAAA3'', tipo = Some ''CALL'',
           vencimento = Some ''2026-01-16'', strike = None\<rparr>,
         Obj_entry \<lparr>ticker_objeto = Some ''AAAA3'', tipo = Some ''PUT'',
           vencimento = Some ''2026-01-16'', strike = Some (9 / 2)\<rparr>])))
      ''AAAA3'' ''2026-01-01'')"
  have b: "map strike ?B = [None, Some (9 / 2), Some 5]"
    by code_simp
  have k: "map strike_or_0 ?B = [0, 9 / 2, 5]"
    by code_simp
  have pos: "\<forall>opt \<in> set ?B. \<forall>k. strike opt = Some k \<longrightarrow> 0 < k"
  proof (intro ballI allI impI)
    fix opt k assume "opt \<in> set ?B" and s: "strike opt = Some k"
    then have "Some k \<in> set (map strike ?B)" by force
    then show "0 < k" unfolding b by auto
  qed
  from absent_strike_counts_as_zero [of _ "''AAAA3''" "''2026-01-01''"] pos b k
  show ?thesis by metis
qed

text \<open>
  With a missing strike taken as the lowest possible value the order fails: for two CALLs
  of one date, the first without strike and the second with strike \<open>-1\<close>, the comparator
  gives \<open>0 - (-1) > 0\<close> and the answer lists strike \<open>-1\<close> first and the record without
  strike after it.
\<close>

theorem absent_strike_lowest_counterexample:
  "map strike (body (get_options
      (Parsed (Doc (Array [
         Obj_entry \<lparr>ticker_objeto = Some ''AAAA3'', tipo = Some ''CALL'',
           vencimento = Some ''2026-01-16'', strike = None\<rparr>,
         Obj_entry \<lparr>ticker_objeto = Some ''AAAA3'', tipo = Some ''CALL'',
           vencimento = Some ''2026-01-16'', strike = Some (- 1)\<rparr>])))
      ''AAAA3'' ''2026-01-01'')) = [Some (- 1), None]
   \<and> \<not> sorted [Some (- 1), None :: rat option]"
proof -
  have "map strike (body (get_options
      (Parsed (Doc (Array [
         Obj_entry \<lparr>ticker_objeto = Some ''AAAA3'', tipo = Some ''CALL'',
           vencimento = Some ''2026-01-16'', strike = None\<rparr>,
         Obj_entry \<lparr>ticker_objeto = Some ''AAAA3'', tipo = Some ''CALL'',
           vencimento = Some ''2026-01-16'', strike = Some (- 1)\<rparr>])))
      ''AAAA3'' ''2026-01-01'')) = [Some (- 1), None]"
    by code_simp
  then show ?thesis by simp
qed

subsection \<open>The options resolver: no error answer\<close>

text \<open>
  C6. \<open>GET /api/options/:ticker\<close> answers 200 whatever the file, the ticker and the date.
  The answer is \<open>{opcoes: []}\<close> when the snapshot file is missing, when reading or
  parsing it throws, when anything else inside the \<open>try\<close> throws, and when no element of
  \<open>opcoes\<close> passes the filter (so also when none has the requested ticker).
\<close>

theorem get_options_never_fails:
  "status (get_options file req_ticker today) = 200
   \<and> get_options Missing req_ticker today = json []
   \<and> get_options Corrupt req_ticker today = json []
   \<and> (\<forall>e. resolve file (toUpperCase req_ticker) today = Inl e
          \<longrightarrow> get_options file req_ticker today = json [])
   \<and> ((\<forall>c. Obj_entry c \<in> set es \<longrightarrow> \<not> matches (toUpperCase req_ticker) today c)
          \<longrightarrow> get_options (Parsed (Doc (Array es))) req_ticker today = json [])"
proof (intro conjI allI impI)
  show "status (get_options file req_ticker today) = 200"
    by (simp add: get_options_def Let_def json_def split: sum.splits)
  show "get_options Missing req_ticker today = json []"
    by (simp add: get_options_def existsSync_def)
  show "get_options Corrupt req_ticker today = json []"
    by (simp add: get_options_def existsSync_def resolve_def parse_file_def)
  show "get_options file req_ticker today = json []"
    if "resolve file (toUpperCase req_ticker) today = Inl e" for e
    using that by (simp add: get_options_def Let_def)
  show "get_options (Parsed (Doc (Array es))) req_ticker today = json []"
    if none: "\<forall>c. Obj_entry c \<in> set es \<longrightarrow> \<not> matches (toUpperCase req_ticker) today c"
  proof -
    let ?f = "Parsed (Doc (Array es))"
    have "body (get_options ?f req_ticker today) = []"
    proof (rule ccontr)
      assume "body (get_options ?f req_ticker today) \<noteq> []"
      then obtain opt where "opt \<in> set (body (get_options ?f req_ticker today))"
        by (cases "body (get_options ?f req_ticker today)") auto
      from returned_from_snapshot [OF this] none show False
        by blast
    qed
    moreover have "status (get_options ?f req_ticker today) = 200"
      by (simp add: get_options_def Let_def json_def split: sum.splits)
    ultimately show ?thesis
      by (simp add: json_def)
  qed
qed

theorem get_options_never_fails_witness:
  "\<not> matches (toUpperCase ''AAAA3'') ''2026-01-01''
       \<lparr>ticker_objeto = Some ''BBBB4'', tipo = Some ''CALL'',
          vencimento = Some ''2026-01-16'', strike = Some 5\<rparr>
   \<and> get_options
        (Parsed (Doc (Array [Obj_entry \<lparr>ticker_objeto = Some ''BBBB4'', tipo = Some ''CALL'',
           vencimento = Some ''2026-01-16'', strike = Some 5\<rparr>])))
        ''AAAA3'' ''2026-01-01'' = \<lparr>status = 200, body = []\<rparr>
   \<and> resolve (Parsed (Doc (Array [Null_entry]))) (toUpperCase ''AAAA3'') ''2026-01-01''
        = Inl TypeError
   \<and> get_options (Parsed (Doc (Array [Null_entry]))) ''AAAA3'' ''2026-01-01''
        = \<lparr>status = 200, body = []\<rparr>"
proof -
  let ?c = "\<lparr>ticker_objeto = Some ''BBBB4'', tipo = Some ''CALL'',
          vencimento = Some ''2026-01-16'', strike = Some (5::rat)\<rparr>"
  have no: "\<not> matches (toUpperCase ''AAAA3'') ''2026-01-01'' ?c"
    by code_simp
  then have none: "\<forall>c. Obj_entry c \<in> set [Obj_entry ?c]
      \<longrightarrow> \<not> matches (toUpperCase ''AAAA3'') ''2026-01-01'' c"
    by simp
  have thrown: "resolve (Parsed (Doc (Array [Null_entry]))) (toUpperCase ''AAAA3'') ''2026-01-01''
        = Inl TypeError"
    by (simp add: resolve_def parse_file_def allOpts_def matched_def)
  from get_options_never_fails [of "Parsed (Doc (Array [Null_entry]))" "''AAAA3''" "''2026-01-01''"
      "[Obj_entry ?c]"] no none thrown
  show ?thesis
    by (simp add: json_def)
qed

subsection \<open>The equity snapshot\<close>

text \<open>
  C7. \<open>readStocks\<close> returns \<open>null\<close> for a missing file and for a file whose read or
  parse throws, and it never throws itself. Its two callers, \<open>GET /api/stocks\<close> and
  \<open>GET /api/status\<close>, answer a corrupt snapshot exactly as they answer a missing one.
\<close>

theorem readStocks_corrupt_is_missing:
  "readStocks Missing = Inr (Prim Null)
   \<and> readStocks Corrupt = Inr (Prim Null)
   \<and> (\<exists>v. readStocks file = Inr v)
   \<and> get_stocks Corrupt = get_stocks Missing
   \<and> get_status Corrupt s = get_status Missing s"
proof -
  have m: "readStocks Missing = Inr (Prim Null)"
    by (simp add: readStocks_def existsSync_def)
  have c: "readStocks Corrupt = Inr (Prim Null)"
    by (simp add: readStocks_def existsSync_def parse_file_def)
  have "\<exists>v. readStocks file = Inr v"
    by (cases "file") (simp_all add: readStocks_def existsSync_def parse_file_def)
  with m c show ?thesis
    by (simp add: get_stocks_def get_status_def)
qed

lemma get_prop_truthy:
  "truthy data \<Longrightarrow> \<exists>v. get_prop data k = Inr v"
  by (auto simp: truthy_def truthy_prim_def get_prop_def split: js_value.splits primitive.splits)

text \<open>
  C8. \<open>GET /api/status\<close> never throws and answers 200 for every file and every state of
  the server. When \<open>readStocks\<close> returns \<open>null\<close> (no snapshot), the body is exactly
  \<open>{disponivel: false, updateInProgress}\<close> with the current value of the variable, and
  none of the four metadata fields.
\<close>

theorem get_status_never_fails:
  "(\<exists>r. get_status file s = Inr r \<and> status r = 200)
   \<and> (readStocks file = Inr (Prim Null) \<longrightarrow>
        get_status file s =
          Inr \<lparr>status = 200,
               body = Obj [(''disponivel'', Prim (Bool False)),
                           (''updateInProgress'', Prim (Bool (updateInProgress s)))]\<rparr>)"
proof (intro conjI impI)
  obtain data where data: "readStocks file = Inr data"
    by (cases "file") (simp_all add: readStocks_def existsSync_def parse_file_def)
  show "\<exists>r. get_status file s = Inr r \<and> status r = 200"
  proof (cases "truthy data")
    case False
    with data show ?thesis
      by (simp add: get_status_def and_then_def json_def)
  next
    case True
    from get_prop_truthy [OF True] obtain a d f t where
      "get_prop data ''atualizadoEm'' = Inr a" "get_prop data ''dataReferencia'' = Inr d"
      "get_prop data ''fonte'' = Inr f" "get_prop data ''totalAcoes'' = Inr t"
      by metis
    with data True show ?thesis
      by (simp add: get_status_def and_then_def json_def)
  qed
  show "get_status file s =
          Inr \<lparr>status = 200,
               body = Obj [(''disponivel'', Prim (Bool False)),
                           (''updateInProgress'', Prim (Bool (updateInProgress s)))]\<rparr>"
    if "readStocks file = Inr (Prim Null)"
    using that by (simp add: get_status_def and_then_def json_def truthy_def truthy_prim_def)
qed

theorem get_status_never_fails_witness:
  "readStocks Corrupt = Inr (Prim Null)
   \<and> get_status Corrupt \<lparr>updateInProgress = True, children = []\<rparr> =
          Inr \<lparr>status = 200,
               body = Obj [(''disponivel'', Prim (Bool False)),
                           (''updateInProgress'', Prim (Bool True))]\<rparr>"
proof -
  have h: "readStocks Corrupt = Inr (Prim Null)"
    by (simp add: readStocks_def existsSync_def parse_file_def)
  from get_status_never_fails [of Corrupt "\<lparr>updateInProgress = True, children = []\<rparr>"] h show ?thesis
    by simp
qed

subsection \<open>The update service\<close>

lemma not_space_p: "\<not> is_space CHR ''p''"
  by (simp add: is_space_def)

lemma not_space_quote: "\<not> is_space (CHR 0x22)"
  by (simp add: is_space_def)

lemma dropWhile_append_stop:
  "\<not> P q \<Longrightarrow> dropWhile P (xs @ q # zs) = dropWhile P xs @ q # zs"
  by (induction xs) auto

lemma trim_keeps_prefix:
  assumes "\<not> is_space a" and "\<not> is_space q"
  shows "trim (a # A @ q # t) = a # A @ q # rev (dropWhile is_space (rev t))"
proof -
  have "rev (a # A @ q # t) = rev t @ q # rev (a # A)"
    by simp
  then have "dropWhile is_space (rev (a # A @ q # t)) =
      dropWhile is_space (rev t) @ q # rev (a # A)"
    using dropWhile_append_stop [of is_space q "rev t" "rev (a # A)"] assms(2) by simp
  then have "rev (dropWhile is_space (rev (a # A @ q # t))) =
      a # A @ q # rev (dropWhile is_space (rev t))"
    by simp
  with assms(1) show ?thesis
    by (simp add: trim_def)
qed

lemma trim_command:
  "trim (''python '' @ quote @ p @ quote @ t) =
     ''python '' @ quote @ p @ quote @ rev (dropWhile is_space (rev t))"
  using trim_keeps_prefix [OF not_space_p not_space_quote, of "''ython '' @ quote @ p" t]
  by (simp add: quote_def)

lemma trim_end_keep:
  assumes "v \<noteq> []" and "\<not> is_space (last v)"
  shows "rev (dropWhile is_space (rev (u @ v))) = u @ v"
proof -
  from assms(1) have v: "v = butlast v @ [last v]"
    by simp
  have "rev (u @ v) = last v # rev (u @ butlast v)"
    by (subst v) simp
  with assms(2) show ?thesis
    by (metis dropWhile.simps(2) rev_rev_ident)
qed

lemma command_no_args:
  "trim (''python '' @ quote @ p @ quote @ '' '' @ join []) = ''python '' @ quote @ p @ quote"
  using trim_command [of p "'' ''"] by (simp add: is_space_def)

lemma optional_prop_Inr: "\<exists>m. optional_prop v k = Inr m"
  by (auto simp: optional_prop_def get_prop_def split: js_value.splits primitive.splits)

lemma read_maxPreco_falsy:
  "optional_prop req_body ''maxPreco'' = Inr m \<Longrightarrow> \<not> truthy m \<Longrightarrow>
     read_maxPreco rt req_body = Inr ''10.0''"
  by (simp add: read_maxPreco_def and_then_def)

lemma read_maxPreco_truthy:
  assumes "optional_prop req_body ''maxPreco'' = Inr m" and "truthy m"
  shows "read_maxPreco rt req_body = String (Number_toString rt) m"
proof -
  from assms have "get_prop req_body ''maxPreco'' = Inr m"
    by (auto simp: optional_prop_def truthy_def truthy_prim_def split: if_splits)
  with assms show ?thesis
    by (simp add: read_maxPreco_def and_then_def)
qed

lemma post_update_accepts:
  assumes "\<not> updateInProgress s" and "read_maxPreco rt req_body = Inr v"
  shows "post_update rt req_body s =
        (Inr \<lparr>status = 200, body = Update_success\<rparr>,
         \<lparr>updateInProgress = True,
          children = children s @
            [\<lparr>command = trim (''python '' @ quote @ scriptPath rt @ quote @ '' --max-preco '' @ v),
              timeout = 600000, callback = Manual\<rparr>]\<rparr>)"
  using assms by (simp add: post_update_def runUpdateScript_def json_def)

lemma tick_starts:
  "runUpdateScript rt [] Scheduled (s\<lparr>updateInProgress := True\<rparr>) =
     \<lparr>updateInProgress = True,
      children = children s @
        [\<lparr>command = ''python '' @ quote @ scriptPath rt @ quote,
          timeout = 600000, callback = Scheduled\<rparr>]\<rparr>"
  using command_no_args [of "scriptPath rt"] by (simp add: runUpdateScript_def)

lemma single_flight_step:
  assumes "length (children s) \<le> 1 \<and> updateInProgress s = (children s \<noteq> [])"
  shows "length (children (step rt s e)) \<le> 1 \<and>
         updateInProgress (step rt s e) = (children (step rt s e) \<noteq> [])"
  using assms
  by (cases e)
    (auto simp: post_update_def timer_tick_def exec_callback_def
      runUpdateScript_def Let_def split: sum.splits)

lemma single_flight_foldl:
  assumes "length (children s) \<le> 1 \<and> updateInProgress s = (children s \<noteq> [])"
  shows "length (children (foldl (step rt) s es)) \<le> 1 \<and>
         updateInProgress (foldl (step rt) s es) = (children (foldl (step rt) s es) \<noteq> [])"
  using assms
proof (induction es arbitrary: s)
  case Nil
  then show ?case by simp
next
  case (Cons e es)
  from Cons.IH [OF single_flight_step [OF Cons.prems]] show ?case by simp
qed

lemma single_flight_run:
  "length (children (run rt es)) \<le> 1 \<and>
   updateInProgress (run rt es) = (children (run rt es) \<noteq> [])"
  unfolding run_def by (rule single_flight_foldl) (simp add: initial_def)

text \<open>
  C1. In every state the server reaches from its start, by any sequence of requests to
  \<open>POST /api/update\<close>, timer ticks and child endings, at most one child process is running,
  and \<open>updateInProgress\<close> is true exactly while one is. A request or a tick that finds the
  variable true changes nothing, so the variable is only ever set from false. The callback
  of a running child clears the variable however the child ended (exit code 0, another
  exit code, or the timeout), leaving no child running; and nothing but the ending of a
  running child takes the variable from true to false.
\<close>

theorem at_most_one_regeneration:
  "length (children (run rt es)) \<le> 1
   \<and> updateInProgress (run rt es) = (children (run rt es) \<noteq> [])
   \<and> (updateInProgress (run rt es) \<longrightarrow>
        step rt (run rt es) (Post_update req_body) = run rt es \<and>
        step rt (run rt es) (Timer_tick h m) = run rt es)
   \<and> (i < length (children (run rt es)) \<longrightarrow>
        \<not> updateInProgress (step rt (run rt es) (Child_ended i e)) \<and>
        children (step rt (run rt es) (Child_ended i e)) = [])
   \<and> (updateInProgress (run rt es) \<and> \<not> updateInProgress (step rt (run rt es) ev) \<longrightarrow>
        (\<exists>j e'. ev = Child_ended j e' \<and> j < length (children (run rt es))))"
proof -
  let ?s = "run rt es"
  from single_flight_run [of rt es]
  have a: "length (children ?s) \<le> 1" and b: "updateInProgress ?s = (children ?s \<noteq> [])"
    by simp_all
  have c: "step rt ?s (Post_update req_body) = ?s \<and> step rt ?s (Timer_tick h m) = ?s"
    if "updateInProgress ?s"
    using that by (simp add: post_update_def timer_tick_def)
  have d: "\<not> updateInProgress (step rt ?s (Child_ended i e)) \<and>
        children (step rt ?s (Child_ended i e)) = []"
    if "i < length (children ?s)"
    using that a by (simp add: exec_callback_def)
  have f: "\<exists>j e'. ev = Child_ended j e' \<and> j < length (children ?s)"
    if "updateInProgress ?s" and "\<not> updateInProgress (step rt ?s ev)"
    using that
    by (cases ev)
      (auto simp: post_update_def timer_tick_def exec_callback_def split: if_splits)
  from a b c d f show ?thesis by blast
qed

theorem at_most_one_regeneration_witness:
  "updateInProgress
     (run \<lparr>scriptPath = ''/app/scripts/update_stocks.py'', Number_toString = (\<lambda>n. ''5'')\<rparr>
        [Post_update (Obj [(''maxPreco'', Prim (Number 5))]), Timer_tick 14 0])
   \<and> step \<lparr>scriptPath = ''/app/scripts/update_stocks.py'', Number_toString = (\<lambda>n. ''5'')\<rparr>
        (run \<lparr>scriptPath = ''/app/scripts/update_stocks.py'', Number_toString = (\<lambda>n. ''5'')\<rparr>
           [Post_update (Obj [(''maxPreco'', Prim (Number 5))]), Timer_tick 14 0])
        (Post_update (Prim Undefined))
       = run \<lparr>scriptPath = ''/app/scripts/update_stocks.py'', Number_toString = (\<lambda>n. ''5'')\<rparr>
           [Post_update (Obj [(''maxPreco'', Prim (Number 5))]), Timer_tick 14 0]
   \<and> step \<lparr>scriptPath = ''/app/scripts/update_stocks.py'', Number_toString = (\<lambda>n. ''5'')\<rparr>
        (run \<lparr>scriptPath = ''/app/scripts/update_stocks.py'', Number_toString = (\<lambda>n. ''5'')\<rparr>
           [Post_update (Obj [(''maxPreco'', Prim (Number 5))]), Timer_tick 14 0])
        (Timer_tick 14 30)
       = run \<lparr>scriptPath = ''/app/scripts/update_stocks.py'', Number_toString = (\<lambda>n. ''5'')\<rparr>
           [Post_update (Obj [(''maxPreco'', Prim (Number 5))]), Timer_tick 14 0]
   \<and> 0 < length (children
        (run \<lparr>scriptPath = ''/app/scripts/update_stocks.py'', Number_toString = (\<lambda>n. ''5'')\<rparr>
           [Post_update (Obj [(''maxPreco'', Prim (Number 5))]), Timer_tick 14 0]))
   \<and> \<not> updateInProgress
          (step \<lparr>scriptPath = ''/app/scripts/update_stocks.py'', Number_toString = (\<lambda>n. ''5'')\<rparr>
             (run \<lparr>scriptPath = ''/app/scripts/update_stocks.py'', Number_toString = (\<lambda>n. ''5'')\<rparr>
                [Post_update (Obj [(''maxPreco'', Prim (Number 5))]), Timer_tick 14 0])
             (Child_ended 0 Timed_out))
   \<and> children
          (step \<lparr>scriptPath = ''/app/scripts/update_stocks.py'', Number_toString = (\<lambda>n. ''5'')\<rparr>
             (run \<lparr>scriptPath = ''/app/scripts/update_stocks.py'', Number_toString = (\<lambda>n. ''5'')\<rparr>
                [Post_update (Obj [(''maxPreco'', Prim (Number 5))]), Timer_tick 14 0])
             (Child_ended 0 (Exited 1))) = []
   \<and> \<not> updateInProgress
          (step \<lparr>scriptPath = ''/app/scripts/update_stocks.py'', Number_toString = (\<lambda>n. ''5'')\<rparr>
             (run \<lparr>scriptPath = ''/app/scripts/update_stocks.py'', Number_toString = (\<lambda>n. ''5'')\<rparr>
                [Post_update (Obj [(''maxPreco'', Prim (Number 5))]), Timer_tick 14 0])
             (Child_ended 0 (Exited 0)))
   \<and> (\<exists>j e'. Child_ended 0 (Exited 0) = Child_ended j e' \<and>
         j < length (children
           (run \<lparr>scriptPath = ''/app/scripts/update_stocks.py'', Number_toString = (\<lambda>n. ''5'')\<rparr>
              [Post_update (Obj [(''maxPreco'', Prim (Number 5))]), Timer_tick 14 0])))"
proof -
  let ?rt = "\<lparr>scriptPath = ''/app/scripts/update_stocks.py'', Number_toString = (\<lambda>n. ''5'')\<rparr>"
  let ?es = "[Post_update (Obj [(''maxPreco'', Prim (Number 5))]), Timer_tick 14 0]"
  let ?s = "run ?rt ?es"
  have r: "read_maxPreco ?rt (Obj [(''maxPreco'', Prim (Number 5))]) = Inr ''5''"
    by (simp add: read_maxPreco_def optional_prop_def get_prop_def and_then_def truthy_def
        truthy_prim_def ToString_def)
  have i: "\<not> updateInProgress initial" by (simp add: initial_def)
  have "?s = timer_tick ?rt 14 0 (snd (post_update ?rt (Obj [(''maxPreco'', Prim (Number 5))]) initial))"
    by (simp add: run_def)
  then have g: "updateInProgress ?s" and l: "0 < length (children ?s)"
    by (simp_all add: post_update_accepts [OF i r] timer_tick_def)
  from at_most_one_regeneration [of ?rt ?es "Prim Undefined" 14 30 0 Timed_out]
    at_most_one_regeneration [of ?rt ?es "Prim Undefined" 14 30 0 "Exited 1"]
    at_most_one_regeneration [of ?rt ?es "Prim Undefined" 14 30 0 "Exited 0"
      "Child_ended 0 (Exited 0)"]
    g l
  show ?thesis by blast
qed

text \<open>
  C2, as the code has it. \<open>POST /api/update\<close> while \<open>updateInProgress\<close> is true answers
  409 with the error body and leaves the whole state as it was: the variable is untouched
  and no process is started (the server keeps no other record of an update, such as a
  start time). While the variable is false and the conversion of line 157 returns, the
  request answers 200 with \<open>{success: true, ...}\<close>, sets the variable and starts one
  process. The conversion returns whenever \<open>maxPreco\<close> is missing or a primitive.
\<close>

theorem post_update_busy:
  "(updateInProgress s \<longrightarrow>
      post_update rt req_body s = (Inr \<lparr>status = 409, body = Update_error\<rparr>, s))
   \<and> (\<not> updateInProgress s \<and> read_maxPreco rt req_body = Inr v \<longrightarrow>
        fst (post_update rt req_body s) = Inr \<lparr>status = 200, body = Update_success\<rparr> \<and>
        updateInProgress (snd (post_update rt req_body s)) \<and>
        length (children (snd (post_update rt req_body s))) = Suc (length (children s)))
   \<and> (optional_prop req_body ''maxPreco'' = Inr (Prim p) \<longrightarrow>
        (\<exists>w. read_maxPreco rt req_body = Inr w))"
proof (intro conjI impI)
  assume "updateInProgress s"
  then show "post_update rt req_body s = (Inr \<lparr>status = 409, body = Update_error\<rparr>, s)"
    by (simp add: post_update_def status_json_def)
next
  assume a: "\<not> updateInProgress s \<and> read_maxPreco rt req_body = Inr v"
  then have "post_update rt req_body s =
        (Inr \<lparr>status = 200, body = Update_success\<rparr>,
         \<lparr>updateInProgress = True,
          children = children s @
            [\<lparr>command = trim (''python '' @ quote @ scriptPath rt @ quote @ '' --max-preco '' @ v),
              timeout = 600000, callback = Manual\<rparr>]\<rparr>)"
    by (simp add: post_update_accepts)
  then show "fst (post_update rt req_body s) = Inr \<lparr>status = 200, body = Update_success\<rparr>"
    and "updateInProgress (snd (post_update rt req_body s))"
    and "length (children (snd (post_update rt req_body s))) = Suc (length (children s))"
    by simp_all
next
  assume m: "optional_prop req_body ''maxPreco'' = Inr (Prim p)"
  show "\<exists>w. read_maxPreco rt req_body = Inr w"
  proof (cases "truthy (Prim p)")
    case True
    from read_maxPreco_truthy [OF m True] show ?thesis by simp
  next
    case False
    from read_maxPreco_falsy [OF m False] show ?thesis by simp
  qed
qed

theorem post_update_busy_witness:
  "updateInProgress \<lparr>updateInProgress = True,
      children = [\<lparr>command = ''python x'', timeout = 600000, callback = Scheduled\<rparr>]\<rparr>
   \<and> post_update \<lparr>scriptPath = ''/app/scripts/update_stocks.py'', Number_toString = (\<lambda>n. ''7.5'')\<rparr>
        (Obj [(''maxPreco'', Prim (Number (15 / 2)))])
        \<lparr>updateInProgress = True,
           children = [\<lparr>command = ''python x'', timeout = 600000, callback = Scheduled\<rparr>]\<rparr>
       = (Inr \<lparr>status = 409, body = Update_error\<rparr>,
          \<lparr>updateInProgress = True,
             children = [\<lparr>command = ''python x'', timeout = 600000, callback = Scheduled\<rparr>]\<rparr>)
   \<and> \<not> updateInProgress initial
   \<and> optional_prop (Obj [(''maxPreco'', Prim (Number (15 / 2)))]) ''maxPreco''
       = Inr (Prim (Number (15 / 2)))
   \<and> read_maxPreco \<lparr>scriptPath = ''/app/scripts/update_stocks.py'', Number_toString = (\<lambda>n. ''7.5'')\<rparr>
        (Obj [(''maxPreco'', Prim (Number (15 / 2)))]) = Inr ''7.5''
   \<and> fst (post_update \<lparr>scriptPath = ''/app/scripts/update_stocks.py'', Number_toString = (\<lambda>n. ''7.5'')\<rparr>
        (Obj [(''maxPreco'', Prim (Number (15 / 2)))]) initial)
       = Inr \<lparr>status = 200, body = Update_success\<rparr>
   \<and> updateInProgress
        (snd (post_update \<lparr>scriptPath = ''/app/scripts/update_stocks.py'', Number_toString = (\<lambda>n. ''7.5'')\<rparr>
           (Obj [(''maxPreco'', Prim (Number (15 / 2)))]) initial))"
proof -
  let ?rt = "\<lparr>scriptPath = ''/app/scripts/update_stocks.py'', Number_toString = (\<lambda>n. ''7.5'')\<rparr>"
  let ?body = "Obj [(''maxPreco'', Prim (Number (15 / 2)))]"
  let ?busy = "\<lparr>updateInProgress = True,
      children = [\<lparr>command = ''python x'', timeout = 600000, callback = Scheduled\<rparr>]\<rparr>"
  have b: "updateInProgress ?busy" by simp
  have i: "\<not> updateInProgress initial" by (simp add: initial_def)
  have o: "optional_prop ?body ''maxPreco'' = Inr (Prim (Number (15 / 2)))"
    by (simp add: optional_prop_def get_prop_def)
  have r: "read_maxPreco ?rt ?body = Inr ''7.5''"
    by (simp add: read_maxPreco_def optional_prop_def get_prop_def and_then_def truthy_def
        truthy_prim_def ToString_def)
  from post_update_busy [of ?busy ?rt ?body]
    post_update_busy [of initial ?rt ?body "''7.5''" "Number (15 / 2)"] b i o r
  show ?thesis by blast
qed

text \<open>
  Without the condition on line 157 the second half fails: for the body
  \<open>{"maxPreco": {"toString": 0}}\<close> and the variable false, \<open>String\<close> throws a TypeError,
  the handler is left with the exception and no answer of its own, and the variable is
  still false.
\<close>

theorem post_update_throws_counterexample:
  "\<not> updateInProgress initial
   \<and> post_update \<lparr>scriptPath = ''/app/scripts/update_stocks.py'', Number_toString = (\<lambda>n. ''0'')\<rparr>
        (Obj [(''maxPreco'', Obj [(''toString'', Prim (Number 0))])]) initial
       = (Inl TypeError, initial)
   \<and> \<not> updateInProgress
        (snd (post_update \<lparr>scriptPath = ''/app/scripts/update_stocks.py'', Number_toString = (\<lambda>n. ''0'')\<rparr>
           (Obj [(''maxPreco'', Obj [(''toString'', Prim (Number 0))])]) initial))"
  by (simp add: initial_def post_update_def read_maxPreco_def optional_prop_def get_prop_def
      and_then_def truthy_def)

text \<open>
  C9. A timer tick starts a scheduled update if and only if \<open>updateInProgress\<close> is false
  and the UTC clock, read in hours and minutes, is from 13:00 to 21:20, both included (in
  minutes of the day, from \<open>13 * 60\<close> to \<open>21 * 60 + 20\<close>). When it does, it sets the variable
  and starts one process without arguments; otherwise it changes nothing. At 22:00 it never
  starts one. The timer period is 30 minutes.
\<close>

theorem scheduler_trading_window:
  "(timer_tick rt utcH utcM s \<noteq> s) =
      (\<not> updateInProgress s \<and> 13 * 60 \<le> utcH * 60 + utcM \<and> utcH * 60 + utcM \<le> 21 * 60 + 20)
   \<and> (utcM < 60 \<longrightarrow>
        (timer_tick rt utcH utcM s \<noteq> s) =
          (\<not> updateInProgress s \<and> 13 \<le> utcH \<and> (utcH < 21 \<or> utcH = 21 \<and> utcM \<le> 20)))
   \<and> (timer_tick rt utcH utcM s \<noteq> s \<longrightarrow>
        timer_tick rt utcH utcM s =
          \<lparr>updateInProgress = True,
           children = children s @
             [\<lparr>command = ''python '' @ quote @ scriptPath rt @ quote,
               timeout = 600000, callback = Scheduled\<rparr>]\<rparr>)
   \<and> timer_tick rt 22 0 s = s
   \<and> UPDATE_INTERVAL_MS = 30 * 60 * 1000"
proof -
  have ne: "runUpdateScript rt [] Scheduled (s\<lparr>updateInProgress := True\<rparr>) \<noteq> s"
  proof
    assume "runUpdateScript rt [] Scheduled (s\<lparr>updateInProgress := True\<rparr>) = s"
    then have "length (children (runUpdateScript rt [] Scheduled (s\<lparr>updateInProgress := True\<rparr>)))
      = length (children s)" by simp
    then show False by (simp add: tick_starts)
  qed
  have a: "(timer_tick rt utcH utcM s \<noteq> s) =
      (\<not> updateInProgress s \<and> 13 * 60 \<le> utcH * 60 + utcM \<and> utcH * 60 + utcM \<le> 21 * 60 + 20)"
    using ne by (auto simp: timer_tick_def isTradinghours_def Let_def)
  have b: "(13 * 60 \<le> utcH * 60 + utcM \<and> utcH * 60 + utcM \<le> 21 * 60 + 20) =
      (13 \<le> utcH \<and> (utcH < 21 \<or> utcH = 21 \<and> utcM \<le> 20))" if "utcM < 60"
    using that by auto
  have c: "timer_tick rt utcH utcM s =
          \<lparr>updateInProgress = True,
           children = children s @
             [\<lparr>command = ''python '' @ quote @ scriptPath rt @ quote,
               timeout = 600000, callback = Scheduled\<rparr>]\<rparr>"
    if "timer_tick rt utcH utcM s \<noteq> s"
    using that by (auto simp: timer_tick_def tick_starts split: if_splits)
  have d: "timer_tick rt 22 0 s = s"
    by (simp add: timer_tick_def isTradinghours_def)
  from a b c d show ?thesis
    by (simp add: UPDATE_INTERVAL_MS_def)
qed

theorem scheduler_trading_window_witness:
  "(20::nat) < 60
   \<and> \<not> updateInProgress initial
   \<and> timer_tick \<lparr>scriptPath = ''/app/scripts/update_stocks.py'', Number_toString = (\<lambda>n. ''0'')\<rparr>
        13 0 initial \<noteq> initial
   \<and> timer_tick \<lparr>scriptPath = ''/app/scripts/update_stocks.py'', Number_toString = (\<lambda>n. ''0'')\<rparr>
        21 20 initial \<noteq> initial
   \<and> timer_tick \<lparr>scriptPath = ''/app/scripts/update_stocks.py'', Number_toString = (\<lambda>n. ''0'')\<rparr>
        21 20 initial =
       \<lparr>updateInProgress = True,
        children = [\<lparr>command = ''python '' @ quote @ ''/app/scripts/update_stocks.py'' @ quote,
                     timeout = 600000, callback = Scheduled\<rparr>]\<rparr>
   \<and> timer_tick \<lparr>scriptPath = ''/app/scripts/update_stocks.py'', Number_toString = (\<lambda>n. ''0'')\<rparr>
        21 21 initial = initial
   \<and> timer_tick \<lparr>scriptPath = ''/app/scripts/update_stocks.py'', Number_toString = (\<lambda>n. ''0'')\<rparr>
        12 59 initial = initial
   \<and> timer_tick \<lparr>scriptPath = ''/app/scripts/update_stocks.py'', Number_toString = (\<lambda>n. ''0'')\<rparr>
        14 0
        (timer_tick \<lparr>scriptPath = ''/app/scripts/update_stocks.py'', Number_toString = (\<lambda>n. ''0'')\<rparr>
           13 30 initial)
       = timer_tick \<lparr>scriptPath = ''/app/scripts/update_stocks.py'', Number_toString = (\<lambda>n. ''0'')\<rparr>
           13 30 initial"
proof -
  let ?rt = "\<lparr>scriptPath = ''/app/scripts/update_stocks.py'', Number_toString = (\<lambda>n. ''0'')\<rparr>"
  have i: "\<not> updateInProgress initial" and c: "children initial = []"
    by (simp_all add: initial_def)
  have u: "updateInProgress (timer_tick ?rt 13 30 initial)"
    by (simp add: timer_tick_def isTradinghours_def initial_def runUpdateScript_def)
  from scheduler_trading_window [of ?rt 13 0 initial]
    scheduler_trading_window [of ?rt 21 20 initial]
    scheduler_trading_window [of ?rt 21 21 initial]
    scheduler_trading_window [of ?rt 12 59 initial]
    scheduler_trading_window [of ?rt 14 0 "timer_tick ?rt 13 30 initial"]
    i c u
  show ?thesis by simp
qed

text \<open>
  C10, as the code has it. An accepted \<open>POST /api/update\<close> gives \<open>exec\<close> the command line
  \<open>python "<scriptPath>" --max-preco v\<close> after \<open>trim()\<close>, where \<open>v\<close> is \<open>10.0\<close> when the
  body field \<open>maxPreco\<close> is missing or falsy (\<open>undefined\<close>, \<open>null\<close>, \<open>0\<close>, the empty string,
  \<open>false\<close>) and otherwise \<open>String(maxPreco)\<close>. The trim removes white space at the end of
  the command line, so \<open>v\<close> stands in it unchanged when it is not empty and does not end in
  white space. A scheduled update gives \<open>exec\<close> the command line \<open>python "<scriptPath>"\<close>
  with no argument.
\<close>

theorem max_preco_argument:
  "(\<not> updateInProgress s \<and> read_maxPreco rt req_body = Inr v \<longrightarrow>
      post_update rt req_body s =
        (Inr \<lparr>status = 200, body = Update_success\<rparr>,
         \<lparr>updateInProgress = True,
          children = children s @
            [\<lparr>command = trim (''python '' @ quote @ scriptPath rt @ quote @ '' --max-preco '' @ v),
              timeout = 600000, callback = Manual\<rparr>]\<rparr>))
   \<and> (v \<noteq> [] \<and> \<not> is_space (last v) \<longrightarrow>
        trim (''python '' @ quote @ scriptPath rt @ quote @ '' --max-preco '' @ v) =
          ''python '' @ quote @ scriptPath rt @ quote @ '' --max-preco '' @ v)
   \<and> (optional_prop req_body ''maxPreco'' = Inr m \<and> \<not> truthy m \<longrightarrow>
        read_maxPreco rt req_body = Inr ''10.0'')
   \<and> (optional_prop req_body ''maxPreco'' = Inr m \<and> truthy m \<longrightarrow>
        read_maxPreco rt req_body = String (Number_toString rt) m)
   \<and> \<not> truthy (Prim Undefined) \<and> \<not> truthy (Prim Null) \<and> \<not> truthy (Prim (Number 0))
   \<and> \<not> truthy (Prim (Str [])) \<and> \<not> truthy (Prim (Bool False))
   \<and> (timer_tick rt utcH utcM s \<noteq> s \<longrightarrow>
        (\<exists>c. children (timer_tick rt utcH utcM s) = children s @ [c] \<and>
             callback c = Scheduled \<and>
             command c = ''python '' @ quote @ scriptPath rt @ quote))"
proof -
  have a: "post_update rt req_body s =
        (Inr \<lparr>status = 200, body = Update_success\<rparr>,
         \<lparr>updateInProgress = True,
          children = children s @
            [\<lparr>command = trim (''python '' @ quote @ scriptPath rt @ quote @ '' --max-preco '' @ v),
              timeout = 600000, callback = Manual\<rparr>]\<rparr>)"
    if "\<not> updateInProgress s \<and> read_maxPreco rt req_body = Inr v"
    using that by (simp add: post_update_accepts)
  have b: "trim (''python '' @ quote @ scriptPath rt @ quote @ '' --max-preco '' @ v) =
          ''python '' @ quote @ scriptPath rt @ quote @ '' --max-preco '' @ v"
    if "v \<noteq> [] \<and> \<not> is_space (last v)"
  proof -
    from that have "v \<noteq> []" and "\<not> is_space (last v)"
      by simp_all
    then have "rev (dropWhile is_space (rev ('' --max-preco '' @ v))) = '' --max-preco '' @ v"
      by (rule trim_end_keep)
    with trim_command [of "scriptPath rt" "'' --max-preco '' @ v"] show ?thesis
      by simp
  qed
  have c: "read_maxPreco rt req_body = Inr ''10.0''"
    if "optional_prop req_body ''maxPreco'' = Inr m \<and> \<not> truthy m"
    using that by (simp add: read_maxPreco_falsy)
  have d: "read_maxPreco rt req_body = String (Number_toString rt) m"
    if "optional_prop req_body ''maxPreco'' = Inr m \<and> truthy m"
    using that by (simp add: read_maxPreco_truthy)
  have e: "\<not> truthy (Prim Undefined) \<and> \<not> truthy (Prim Null) \<and> \<not> truthy (Prim (Number 0))
      \<and> \<not> truthy (Prim (Str [])) \<and> \<not> truthy (Prim (Bool False))"
    by (simp add: truthy_def truthy_prim_def)
  have f: "\<exists>c. children (timer_tick rt utcH utcM s) = children s @ [c] \<and>
             callback c = Scheduled \<and>
             command c = ''python '' @ quote @ scriptPath rt @ quote"
    if "timer_tick rt utcH utcM s \<noteq> s"
    using that by (auto simp: timer_tick_def tick_starts split: if_splits)
  from a b c d e f show ?thesis by blast
qed

theorem max_preco_argument_witness:
  "\<not> updateInProgress initial
   \<and> optional_prop (Obj [(''maxPreco'', Prim (Number 0))]) ''maxPreco'' = Inr (Prim (Number 0))
   \<and> \<not> truthy (Prim (Number 0))
   \<and> read_maxPreco \<lparr>scriptPath = ''/app/scripts/update_stocks.py'', Number_toString = (\<lambda>n. ''0'')\<rparr>
        (Obj [(''maxPreco'', Prim (Number 0))]) = Inr ''10.0''
   \<and> map command (children (snd
        (post_update \<lparr>scriptPath = ''/app/scripts/update_stocks.py'', Number_toString = (\<lambda>n. ''0'')\<rparr>
           (Obj [(''maxPreco'', Prim (Number 0))]) initial)))
       = [''python '' @ quote @ ''/app/scripts/update_stocks.py'' @ quote @ '' --max-preco 10.0'']
   \<and> optional_prop (Obj [(''maxPreco'', Prim (Str ''7.5''))]) ''maxPreco'' = Inr (Prim (Str ''7.5''))
   \<and> truthy (Prim (Str ''7.5''))
   \<and> read_maxPreco \<lparr>scriptPath = ''/app/scripts/update_stocks.py'', Number_toString = (\<lambda>n. ''0'')\<rparr>
        (Obj [(''maxPreco'', Prim (Str ''7.5''))]) = Inr ''7.5''
   \<and> map command (children (snd
        (post_update \<lparr>scriptPath = ''/app/scripts/update_stocks.py'', Number_toString = (\<lambda>n. ''0'')\<rparr>
           (Obj [(''maxPreco'', Prim (Str ''7.5''))]) initial)))
       = [''python '' @ quote @ ''/app/scripts/update_stocks.py'' @ quote @ '' --max-preco 7.5'']
   \<and> timer_tick \<lparr>scriptPath = ''/app/scripts/update_stocks.py'', Number_toString = (\<lambda>n. ''0'')\<rparr>
        13 0 initial \<noteq> initial
   \<and> map command (children
        (timer_tick \<lparr>scriptPath = ''/app/scripts/update_stocks.py'', Number_toString = (\<lambda>n. ''0'')\<rparr>
           13 0 initial))
       = [''python '' @ quote @ ''/app/scripts/update_stocks.py'' @ quote]"
proof -
  let ?rt = "\<lparr>scriptPath = ''/app/scripts/update_stocks.py'', Number_toString = (\<lambda>n. ''0'')\<rparr>"
  let ?zero = "Obj [(''maxPreco'', Prim (Number 0))]"
  let ?str = "Obj [(''maxPreco'', Prim (Str ''7.5''))]"
  have i: "\<not> updateInProgress initial" and c: "children initial = []"
    by (simp_all add: initial_def)
  have oz: "optional_prop ?zero ''maxPreco'' = Inr (Prim (Number 0))"
    and os: "optional_prop ?str ''maxPreco'' = Inr (Prim (Str ''7.5''))"
    by (simp_all add: optional_prop_def get_prop_def)
  have fz: "\<not> truthy (Prim (Number 0))" and ts: "truthy (Prim (Str ''7.5''))"
    by (simp_all add: truthy_def truthy_prim_def)
  have ss: "String (Number_toString ?rt) (Prim (Str ''7.5'')) = Inr ''7.5''"
    by (simp add: ToString_def)
  have last10: "''10.0'' \<noteq> [] \<and> \<not> is_space (last ''10.0'')"
    and last75: "''7.5'' \<noteq> [] \<and> \<not> is_space (last ''7.5'')"
    by (simp_all add: is_space_def)
  have t: "timer_tick ?rt 13 0 initial \<noteq> initial"
    by (simp add: timer_tick_def isTradinghours_def initial_def runUpdateScript_def)
  note z = max_preco_argument [of initial ?rt ?zero "''10.0''" "Prim (Number 0)" 13 0]
  note s = max_preco_argument [of initial ?rt ?str "''7.5''" "Prim (Str ''7.5'')" 13 0]
  from z oz fz have rz: "read_maxPreco ?rt ?zero = Inr ''10.0''" by blast
  from s os ts ss have rs: "read_maxPreco ?rt ?str = Inr ''7.5''" by simp
  from z i rz last10 c have cz: "map command (children (snd (post_update ?rt ?zero initial)))
       = [''python '' @ quote @ ''/app/scripts/update_stocks.py'' @ quote @ '' --max-preco 10.0'']"
    by simp
  from s i rs last75 c have cs: "map command (children (snd (post_update ?rt ?str initial)))
       = [''python '' @ quote @ ''/app/scripts/update_stocks.py'' @ quote @ '' --max-preco 7.5'']"
    by simp
  from z t c have ct: "map command (children (timer_tick ?rt 13 0 initial))
       = [''python '' @ quote @ ''/app/scripts/update_stocks.py'' @ quote]"
    by auto
  from i oz fz rz cz os ts rs cs t ct show ?thesis by blast
qed

text \<open>
  A provided value is not always passed through: for \<open>maxPreco\<close> the string of one space,
  which is truthy and converts to itself, the trimmed command line ends in \<open>--max-preco\<close>
  with no value after it.
\<close>

theorem max_preco_trimmed_counterexample:
  "\<not> updateInProgress initial
   \<and> truthy (Prim (Str '' ''))
   \<and> String (\<lambda>n. ''0'') (Prim (Str '' '')) = Inr '' ''
   \<and> map command (children (snd
        (post_update \<lparr>scriptPath = ''/app/scripts/update_stocks.py'', Number_toString = (\<lambda>n. ''0'')\<rparr>
           (Obj [(''maxPreco'', Prim (Str '' ''))]) initial)))
       = [''python '' @ quote @ ''/app/scripts/update_stocks.py'' @ quote @ '' --max-preco'']
   \<and> ''python '' @ quote @ ''/app/scripts/update_stocks.py'' @ quote @ '' --max-preco''
       \<noteq> ''python '' @ quote @ ''/app/scripts/update_stocks.py'' @ quote @ '' --max-preco '' @ '' ''"
proof -
  let ?rt = "\<lparr>scriptPath = ''/app/scripts/update_stocks.py'', Number_toString = (\<lambda>n. ''0'')\<rparr>"
  let ?body = "Obj [(''maxPreco'', Prim (Str '' ''))]"
  have i: "\<not> updateInProgress initial" and c: "children initial = []"
    by (simp_all add: initial_def)
  have t: "truthy (Prim (Str '' ''))"
    by (simp add: truthy_def truthy_prim_def)
  have s: "String (\<lambda>n. ''0'') (Prim (Str '' '')) = Inr '' ''"
    by (simp add: ToString_def)
  have r: "read_maxPreco ?rt ?body = Inr '' ''"
    by (simp add: read_maxPreco_def optional_prop_def get_prop_def and_then_def truthy_def
        truthy_prim_def ToString_def)
  have "trim (''python '' @ quote @ ''/app/scripts/update_stocks.py'' @ quote @ '' --max-preco '' @ '' '')
      = ''python '' @ quote @ ''/app/scripts/update_stocks.py'' @ quote @ '' --max-preco''"
    using trim_command [of "''/app/scripts/update_stocks.py''" "'' --max-preco '' @ '' ''"]
    by (simp add: is_space_def)
  with post_update_accepts [OF i r] c
  have "map command (children (snd (post_update ?rt ?body initial)))
       = [''python '' @ quote @ ''/app/scripts/update_stocks.py'' @ quote @ '' --max-preco'']"
    by simp
  with i t s show ?thesis by simp
qed

end
